theory Spec2Isabelle
  imports Main "HOL-Library.Word"
begin

unbundle bit_operations_syntax

section \<open>Bytes, buffers and JavaScript string conversions\<close>

text \<open>
  A \<^verbatim>\<open>Uint8Array\<close> is a list of 8-bit words. Reading an element gives a number between
  0 and 255 (\<open>unat\<close> of the word).
\<close>

type_synonym byte = "8 word"
type_synonym buffer = "byte list"

text \<open>
  \<^verbatim>\<open>Number.prototype.toString(radix)\<close> on a non-negative integer, for the radices the
  program uses (16 and 10): the digits, most significant first, with no leading zero.
\<close>

definition digitChar :: "nat \<Rightarrow> char" where
  "digitChar d = ''0123456789abcdef'' ! d"

fun toStringRadix :: "nat \<Rightarrow> nat \<Rightarrow> string" where
  "toStringRadix r n =
     (if r < 2 \<or> n < r then [digitChar n]
      else toStringRadix r (n div r) @ [digitChar (n mod r)])"

declare toStringRadix.simps [simp del]

definition toString16 :: "nat \<Rightarrow> string" where
  "toString16 n = toStringRadix 16 n"

definition toString10 :: "nat \<Rightarrow> string" where
  "toString10 n = toStringRadix 10 n"

text \<open>\<^verbatim>\<open>s.padStart(n, c)\<close> with a one-character pad string.\<close>

definition padStart :: "nat \<Rightarrow> char \<Rightarrow> string \<Rightarrow> string" where
  "padStart n c s = replicate (n - length s) c @ s"

text \<open>
  \<^verbatim>\<open>s.substring(a, b)\<close>, \<^verbatim>\<open>s.slice(a, b)\<close> and \<^verbatim>\<open>buffer.slice(a, b)\<close> for
  \<open>0 \<le> a \<le> b\<close>: both ends are clamped to the length, so a range that leaves the sequence
  gives fewer elements and never fails.
\<close>

definition slice :: "'a list \<Rightarrow> nat \<Rightarrow> nat \<Rightarrow> 'a list" where
  "slice xs a b = take (b - a) (drop a xs)"

text \<open>\<^verbatim>\<open>xs.join(sep)\<close>.\<close>

fun join :: "string \<Rightarrow> string list \<Rightarrow> string" where
  "join sep [] = []"
| "join sep [x] = x"
| "join sep (x # y # ys) = x @ sep @ join sep (y # ys)"

text \<open>
  \<^verbatim>\<open>new TextDecoder().decode(bytes)\<close>: the text of a byte sequence. A HOL \<open>string\<close> is a
  list of 8-bit characters, so the decoded text is represented by its UTF-8 bytes. (Where
  the bytes are not UTF-8, the decoder puts replacement characters; the model keeps the
  bytes.)
\<close>

definition textDecode :: "buffer \<Rightarrow> string" where
  "textDecode bytes = map (\<lambda>b. char_of (unat b)) bytes"

section \<open>Exceptions and results\<close>

text \<open>
  \<open>Error m\<close> and \<open>TypeError m\<close> are JavaScript exceptions with their message.
  \<open>UndefinedRead i\<close> marks an element read \<^verbatim>\<open>buffer[i]\<close> with \<open>i\<close> at or beyond the
  length of the buffer, where JavaScript yields \<^verbatim>\<open>undefined\<close>: a function modelled with
  \<open>readByte\<close> stops there, so that reaching such a read is visible in its value.
\<close>

datatype exn = Error string | TypeError string | UndefinedRead nat

definition readByte :: "buffer \<Rightarrow> nat \<Rightarrow> exn + nat" where
  "readByte buffer i = (if i < length buffer then Inr (unat (buffer ! i)) else Inl (UndefinedRead i))"

definition andThen :: "exn + 'a \<Rightarrow> ('a \<Rightarrow> exn + 'b) \<Rightarrow> exn + 'b" where
  "andThen m k = (case m of Inl e \<Rightarrow> Inl e | Inr v \<Rightarrow> k v)"

text \<open>
  The object a parser returns: \<^verbatim>\<open>{ hasError: true, message }\<close> is \<open>Failure message\<close>, and
  \<^verbatim>\<open>{ hasError: false, ... }\<close> is \<open>Success\<close> with the remaining fields.
\<close>

datatype 'h result = Failure string | Success 'h


section \<open>The VLESS parser (processVlessHeader with per-field length checks)\<close>

text \<open>
  The parser that documents the header layout. It keeps a cursor \<^verbatim>\<open>offset\<close> and compares
  the length of the buffer with the end of each field before it reads the field. Its
  element reads are modelled with \<open>readByte\<close>, and the exception of \<^verbatim>\<open>bytesToUUID\<close> is a
  value: \<open>Inr r\<close> is the object \<open>r\<close> returned, \<open>Inl e\<close> an exception or a read outside the
  buffer. The port is \<^verbatim>\<open>(hi << 8) | lo\<close> on two bytes, which 32-bit arithmetic does not
  wrap.
\<close>

definition bytesToUUID :: "buffer \<Rightarrow> exn + string" where
  "bytesToUUID bytes =
     (if length bytes \<noteq> 16 then Inl (Error ''UUID must be exactly 16 bytes'')
      else
        let hex = concat (map (\<lambda>b. padStart 2 CHR ''0'' (toString16 (unat b))) bytes)
        in Inr (slice hex 0 8 @ ''-'' @ slice hex 8 12 @ ''-'' @ slice hex 12 16 @ ''-''
                @ slice hex 16 20 @ ''-'' @ slice hex 20 32))"

definition validateCommand :: "nat \<Rightarrow> bool" where
  "validateCommand command = (command = 1)"

text \<open>
  The loop \<^verbatim>\<open>for (let i = 0; i < 16; i += 2)\<close> of the IPv6 case, with the array
  \<^verbatim>\<open>ipv6Parts\<close> built so far as accumulator.
\<close>

function ipv6Loop :: "buffer \<Rightarrow> nat \<Rightarrow> nat \<Rightarrow> string list \<Rightarrow> exn + string list" where
  "ipv6Loop buffer offset i ipv6Parts =
     (if i < 16 then
        (case readByte buffer (offset + i) of
           Inl e \<Rightarrow> Inl e
         | Inr hi \<Rightarrow>
            (case readByte buffer (offset + i + 1) of
               Inl e \<Rightarrow> Inl e
             | Inr lo \<Rightarrow>
                ipv6Loop buffer offset (i + 2) (ipv6Parts @ [toString16 (push_bit 8 hi OR lo)])))
      else Inr ipv6Parts)"
  by pat_completeness auto
termination
  by (relation "measure (\<lambda>(buffer, offset, i, ipv6Parts). 16 - i)") auto

declare ipv6Loop.simps [simp del]

text \<open>
  The \<^verbatim>\<open>switch (addressType)\<close>: the address text and the offset behind the address, or
  the failure the case returns.
\<close>

definition parseAddress :: "buffer \<Rightarrow> nat \<Rightarrow> nat \<Rightarrow> exn + (string \<times> nat) result" where
  "parseAddress buffer offset addressType =
     (if addressType = 1 then
        (if length buffer < offset + 4 then
           Inr (Failure ''Invalid VLESS header: incomplete IPv4 address'')
         else
           andThen (readByte buffer offset) (\<lambda>b0.
           andThen (readByte buffer (offset + 1)) (\<lambda>b1.
           andThen (readByte buffer (offset + 2)) (\<lambda>b2.
           andThen (readByte buffer (offset + 3)) (\<lambda>b3.
             Inr (Success (toString10 b0 @ ''.'' @ toString10 b1 @ ''.'' @ toString10 b2
                           @ ''.'' @ toString10 b3, offset + 4)))))))
      else if addressType = 2 then
        (if length buffer < offset + 1 then
           Inr (Failure ''Invalid VLESS header: missing domain length'')
         else
           andThen (readByte buffer offset) (\<lambda>domainLength.
             let offset = offset + 1 in
             if length buffer < offset + domainLength then
               Inr (Failure ''Invalid VLESS header: incomplete domain name'')
             else
               Inr (Success (textDecode (slice buffer offset (offset + domainLength)),
                             offset + domainLength))))
      else if addressType = 3 then
        (if length buffer < offset + 16 then
           Inr (Failure ''Invalid VLESS header: incomplete IPv6 address'')
         else
           andThen (ipv6Loop buffer offset 0 []) (\<lambda>ipv6Parts.
             Inr (Success (join '':'' ipv6Parts, offset + 16))))
      else Inr (Failure (''Unsupported address type: '' @ toString10 addressType)))"

text \<open>The fields of the object returned on success.\<close>

record header =
  addressRemote :: string
  portRemote :: nat
  rawDataIndex :: nat
  vlessVersion :: nat
  command :: nat
  addressType :: nat
  message :: string

definition processVlessHeader :: "buffer \<Rightarrow> string \<Rightarrow> exn + header result" where
  "processVlessHeader buffer expectedUUID =
     (if length buffer < 23 then Inr (Failure ''Invalid VLESS header: buffer too short'')
      else
        let offset = 0 in
        andThen (readByte buffer offset) (\<lambda>version.
        let offset = offset + 1 in
        if version \<noteq> 0 then
          Inr (Failure (''Unsupported VLESS version: '' @ toString10 version
                        @ ''. Only version 0 is supported.''))
        else
          let uuidBytes = slice buffer offset (offset + 16);
              offset = offset + 16
          in
          andThen (bytesToUUID uuidBytes) (\<lambda>clientUUID.
          if clientUUID \<noteq> expectedUUID then
            Inr (Failure ''Authentication failed: Invalid UUID'')
          else
            andThen (readByte buffer offset) (\<lambda>optLen.
            let offset = offset + 1 in
            if length buffer < offset + optLen then
              Inr (Failure ''Invalid VLESS header: incomplete options data'')
            else
              let offset = offset + optLen in
              if length buffer < offset + 1 then
                Inr (Failure ''Invalid VLESS header: missing command'')
              else
                andThen (readByte buffer offset) (\<lambda>command.
                let offset = offset + 1 in
                if \<not> validateCommand command then
                  Inr (Failure (''Unsupported command: '' @ toString10 command
                                @ ''. Only TCP (0x01) is supported.''))
                else if length buffer < offset + 2 then
                  Inr (Failure ''Invalid VLESS header: missing port'')
                else
                  andThen (readByte buffer offset) (\<lambda>hi.
                  andThen (readByte buffer (offset + 1)) (\<lambda>lo.
                  let portRemote = push_bit 8 hi OR lo;
                      offset = offset + 2
                  in
                  if length buffer < offset + 1 then
                    Inr (Failure ''Invalid VLESS header: missing address type'')
                  else
                    andThen (readByte buffer offset) (\<lambda>addressType.
                    let offset = offset + 1 in
                    andThen (parseAddress buffer offset addressType) (\<lambda>parsed.
                      case parsed of
                        Failure m \<Rightarrow> Inr (Failure m)
                      | Success (address, offset') \<Rightarrow>
                          Inr (Success \<lparr>addressRemote = address,
                                        portRemote = portRemote,
                                        rawDataIndex = offset',
                                        vlessVersion = version,
                                        command = command,
                                        addressType = addressType,
                                        message = ''VLESS header parsed successfully''\<rparr>))))))))))"

section \<open>The second parser (processVlessHeader without per-field length checks)\<close>

text \<open>
  The repository holds a second, shorter \<^verbatim>\<open>processVlessHeader\<close> and \<^verbatim>\<open>bytesToUUID\<close>
  (unnamed source part 2); their model carries the suffix 2. This parser checks the length
  once and then reads elements at computed indices, so its reads can leave the buffer and
  what JavaScript does with \<^verbatim>\<open>undefined\<close> is part of its behaviour. A \<open>jsnum\<close> is a
  number the parser computes: \<open>Some n\<close> is the non-negative integer \<open>n\<close>, and \<open>None\<close> is
  \<^verbatim>\<open>undefined\<close> (from an element read) or \<^verbatim>\<open>NaN\<close> (from arithmetic on it).
\<close>

type_synonym jsnum = "nat option"

text \<open>\<^verbatim>\<open>buffer[i]\<close>: \<^verbatim>\<open>undefined\<close> when \<open>i\<close> is not an index of the buffer.\<close>

definition element :: "buffer \<Rightarrow> jsnum \<Rightarrow> jsnum" where
  "element buffer i =
     (case i of
        None \<Rightarrow> None
      | Some n \<Rightarrow> if n < length buffer then Some (unat (buffer ! n)) else None)"

text \<open>\<^verbatim>\<open>a + b\<close> on numbers: \<^verbatim>\<open>NaN\<close> as soon as one side is \<^verbatim>\<open>undefined\<close> or \<^verbatim>\<open>NaN\<close>.\<close>

definition jsAdd :: "jsnum \<Rightarrow> jsnum \<Rightarrow> jsnum" where
  "jsAdd a b = (case a of None \<Rightarrow> None | Some x \<Rightarrow> (case b of None \<Rightarrow> None | Some y \<Rightarrow> Some (x + y)))"

text \<open>
  The integer that \<^verbatim>\<open><<\<close>, \<^verbatim>\<open>|\<close> and \<^verbatim>\<open>slice\<close> make of an operand: \<^verbatim>\<open>undefined\<close> and
  \<^verbatim>\<open>NaN\<close> become 0. (The other operands here are element reads and indices, far below
  \<open>2 ^ 31\<close>, which the conversion leaves as they are.)
\<close>

definition toInteger :: "jsnum \<Rightarrow> nat" where
  "toInteger a = (case a of None \<Rightarrow> 0 | Some n \<Rightarrow> n)"

definition jsSlice :: "'a list \<Rightarrow> jsnum \<Rightarrow> jsnum \<Rightarrow> 'a list" where
  "jsSlice xs a b = slice xs (toInteger a) (toInteger b)"

definition bytesToUUID2 :: "buffer \<Rightarrow> string" where
  "bytesToUUID2 bytes =
     (let hex = concat (map (\<lambda>b. padStart 2 CHR ''0'' (toString16 (unat b))) bytes)
      in slice hex 0 8 @ ''-'' @ slice hex 8 12 @ ''-'' @ slice hex 12 16 @ ''-''
         @ slice hex 16 20 @ ''-'' @ drop 20 hex)"

function ipv6Loop2 :: "buffer \<Rightarrow> jsnum \<Rightarrow> nat \<Rightarrow> string list \<Rightarrow> string list" where
  "ipv6Loop2 vlessBuffer addressIndex i ipv6Parts =
     (if i < 16 then
        let part = push_bit 8 (toInteger (element vlessBuffer (jsAdd (jsAdd addressIndex (Some 1)) (Some i))))
                   OR toInteger (element vlessBuffer (jsAdd (jsAdd addressIndex (Some 2)) (Some i)))
        in ipv6Loop2 vlessBuffer addressIndex (i + 2) (ipv6Parts @ [toString16 part])
      else ipv6Parts)"
  by pat_completeness auto
termination
  by (relation "measure (\<lambda>(vlessBuffer, addressIndex, i, ipv6Parts). 16 - i)") auto

declare ipv6Loop2.simps [simp del]

record header2 =
  addressRemote2 :: string
  portRemote2 :: nat
  rawDataIndex2 :: jsnum
  command2 :: jsnum

definition processVlessHeader2 :: "buffer \<Rightarrow> string \<Rightarrow> header2 result" where
  "processVlessHeader2 vlessBuffer userID =
     (if length vlessBuffer < 24 then Failure ''Buffer too short''
      else
        let version = element vlessBuffer (Some 0) in
        if version \<noteq> Some 0 then Failure ''Invalid version''
        else
          let uuid = bytesToUUID2 (slice vlessBuffer 1 17) in
          if uuid \<noteq> userID then Failure ''Invalid UUID''
          else
            let optLength = element vlessBuffer (Some 17);
                command = element vlessBuffer (jsAdd (Some 18) optLength)
            in
            if command \<noteq> Some 1 then Failure ''Only TCP supported''
            else
              let portIndex = jsAdd (jsAdd (Some 18) optLength) (Some 1);
                  portRemote = push_bit 8 (toInteger (element vlessBuffer portIndex))
                               OR toInteger (element vlessBuffer (jsAdd portIndex (Some 1)));
                  addressIndex = jsAdd portIndex (Some 2);
                  addressType = element vlessBuffer addressIndex
              in
              if addressType = Some 1 then
                let addressLength = Some 4;
                    addressRemote =
                      join ''.'' (map (\<lambda>b. toString10 (unat b))
                        (jsSlice vlessBuffer (jsAdd addressIndex (Some 1))
                           (jsAdd (jsAdd addressIndex (Some 1)) addressLength)));
                    rawDataIndex = jsAdd (jsAdd addressIndex (Some 1)) addressLength
                in Success \<lparr>addressRemote2 = addressRemote, portRemote2 = portRemote,
                             rawDataIndex2 = rawDataIndex, command2 = command\<rparr>
              else if addressType = Some 2 then
                let addressLength = element vlessBuffer (jsAdd addressIndex (Some 1));
                    addressRemote =
                      textDecode
                        (jsSlice vlessBuffer (jsAdd addressIndex (Some 2))
                           (jsAdd (jsAdd addressIndex (Some 2)) addressLength));
                    addressLength = jsAdd addressLength (Some 1);
                    rawDataIndex = jsAdd (jsAdd addressIndex (Some 1)) addressLength
                in Success \<lparr>addressRemote2 = addressRemote, portRemote2 = portRemote,
                             rawDataIndex2 = rawDataIndex, command2 = command\<rparr>
              else if addressType = Some 3 then
                let addressLength = Some 16;
                    ipv6Parts = ipv6Loop2 vlessBuffer addressIndex 0 [];
                    addressRemote = join '':'' ipv6Parts;
                    rawDataIndex = jsAdd (jsAdd addressIndex (Some 1)) addressLength
                in Success \<lparr>addressRemote2 = addressRemote, portRemote2 = portRemote,
                             rawDataIndex2 = rawDataIndex, command2 = command\<rparr>
              else Failure ''Unknown address type'')"

section \<open>Connections and safe closing\<close>

text \<open>
  The objects the handlers close. \<open>Null\<close> is \<^verbatim>\<open>null\<close>. \<open>WebSocket n\<close> is a WebSocket whose
  \<^verbatim>\<open>readyState\<close> is \<open>n\<close> (0 connecting, 1 open, 2 closing, 3 closed); it has no
  \<^verbatim>\<open>destroyed\<close> property. \<open>Socket d\<close> is a TCP socket whose \<^verbatim>\<open>destroyed\<close> property is
  \<open>d\<close>; its \<^verbatim>\<open>readyState\<close> is a string.
\<close>

datatype connection = Null | WebSocket nat | Socket bool

datatype jsval = Undefined | Number nat | Boolean bool | Str string

fun messageOf :: "exn \<Rightarrow> string" where
  "messageOf (Error m) = m"
| "messageOf (TypeError m) = m"
| "messageOf (UndefinedRead i) = []"

text \<open>Property reads: on \<^verbatim>\<open>null\<close> they throw a \<^verbatim>\<open>TypeError\<close>.\<close>

fun readyStateOf :: "connection \<Rightarrow> exn + jsval" where
  "readyStateOf Null = Inl (TypeError ''Cannot read properties of null'')"
| "readyStateOf (WebSocket n) = Inr (Number n)"
| "readyStateOf (Socket d) = Inr (Str (if d then ''closed'' else ''open''))"

fun destroyedOf :: "connection \<Rightarrow> exn + jsval" where
  "destroyedOf Null = Inl (TypeError ''Cannot read properties of null'')"
| "destroyedOf (WebSocket n) = Inr Undefined"
| "destroyedOf (Socket d) = Inr (Boolean d)"

text \<open>
  The method calls \<^verbatim>\<open>connection.close()\<close> and \<^verbatim>\<open>connection.destroy()\<close>. The runtime
  decides whether a call throws: \<open>throws c\<close> is the exception it raises for a call on
  \<open>c\<close>, if any. A call that returns leaves an open or connecting WebSocket closing, and a
  socket destroyed or, for the \<^verbatim>\<open>close()\<close> of a socket of websocket-handler.js, closed;
  \<^verbatim>\<open>destroy\<close> on a WebSocket, which has no such method, is a \<^verbatim>\<open>TypeError\<close>.
\<close>

definition closeCall :: "(connection \<Rightarrow> exn option) \<Rightarrow> connection \<Rightarrow> exn + connection" where
  "closeCall throws c =
     (case throws c of
        Some e \<Rightarrow> Inl e
      | None \<Rightarrow>
         (case c of
            Null \<Rightarrow> Inl (TypeError ''Cannot read properties of null'')
          | WebSocket n \<Rightarrow> Inr (WebSocket (if n = 0 \<or> n = 1 then 2 else n))
          | Socket d \<Rightarrow> Inr (Socket True)))"

definition destroyCall :: "(connection \<Rightarrow> exn option) \<Rightarrow> connection \<Rightarrow> exn + connection" where
  "destroyCall throws c =
     (case throws c of
        Some e \<Rightarrow> Inl e
      | None \<Rightarrow>
         (case c of
            Null \<Rightarrow> Inl (TypeError ''Cannot read properties of null'')
          | WebSocket n \<Rightarrow> Inl (TypeError ''connection.destroy is not a function'')
          | Socket d \<Rightarrow> Inr (Socket True)))"

text \<open>\<^verbatim>\<open>try { body } catch (error) { handler }\<close>.\<close>

definition tryCatch :: "exn + 'a \<Rightarrow> (exn \<Rightarrow> exn + 'a) \<Rightarrow> exn + 'a" where
  "tryCatch body handler = (case body of Inl error \<Rightarrow> handler error | Inr v \<Rightarrow> Inr v)"

text \<open>
  \<^verbatim>\<open>safeClose\<close> of websocket-proxy.js. The value is \<open>Inr c'\<close> when the call returns, with
  \<open>c'\<close> the connection afterwards, and \<open>Inl e\<close> when it raises \<open>e\<close>. A call that threw is
  taken to have left the connection as it was.
\<close>

definition safeClose :: "(connection \<Rightarrow> exn option) \<Rightarrow> connection \<Rightarrow> exn + connection" where
  "safeClose throws connection =
     tryCatch
       (if connection \<noteq> Null then
          andThen (readyStateOf connection) (\<lambda>readyState.
            if readyState = Number 1 \<or> readyState = Number 0 then closeCall throws connection
            else
              andThen (destroyedOf connection) (\<lambda>destroyed.
                if destroyed = Boolean False then destroyCall throws connection
                else Inr connection))
        else Inr connection)
       (\<lambda>error. Inr connection)"

text \<open>
  \<^verbatim>\<open>safeCloseWebSocket\<close> of websocket-handler.js, with 1 and 0 for the constants
  \<^verbatim>\<open>WebSocket.READY_STATE_OPEN\<close> and \<^verbatim>\<open>WebSocket.READY_STATE_CONNECTING\<close>; its handler
  reads \<^verbatim>\<open>error.message\<close> for the log line.
\<close>

definition safeCloseWebSocket :: "(connection \<Rightarrow> exn option) \<Rightarrow> connection \<Rightarrow> exn + connection" where
  "safeCloseWebSocket throws ws =
     tryCatch
       (andThen (readyStateOf ws) (\<lambda>readyState.
          if readyState = Number 1 \<or> readyState = Number 0 then closeCall throws ws
          else Inr ws))
       (\<lambda>error. let logged = ''Error closing WebSocket:'' @ messageOf error in Inr ws)"

section \<open>The relay session of websocket-proxy.js\<close>

text \<open>
  \<^verbatim>\<open>handleWebSocketUpgrade(ws, config)\<close> registers handlers on the WebSocket and, later,
  on the TCP socket; the runtime then calls them, one at a time (no handler awaits). A
  session is modelled by its closure variables, the state of its two connections, and
  the trace of the calls its handlers make on them. The runtime is free: an execution is
  any list of events, in any order. How long a call of the runtime takes, and what the
  runtime does with the timeout it is given, is outside the model. The handler imports
  \<^verbatim>\<open>processVlessHeader\<close> from the file vless-parser.js beside it, and is modelled with
  the parser with per-field checks.
\<close>

record config =
  UUID :: string
  LOG_CONNECTIONS :: bool
  TIMEOUT :: nat

text \<open>
  The calls recorded in the trace: \<^verbatim>\<open>ws.close(code, reason)\<close>, \<^verbatim>\<open>ws.send(chunk)\<close>,
  \<^verbatim>\<open>net.connect({host, port})\<close>, \<^verbatim>\<open>remoteSocket.write(bytes)\<close>,
  \<^verbatim>\<open>remoteSocket.setTimeout(ms, callback)\<close> and \<^verbatim>\<open>console.warn(text)\<close>. The other
  console lines are not recorded, and what \<^verbatim>\<open>safeClose\<close> does shows in the state of the
  connection. The calls in the trace are taken to return without throwing.
\<close>

datatype action =
    WsClose nat string
  | WsSend buffer
  | NetConnect string nat
  | SocketWrite buffer
  | SocketSetTimeout nat
  | ConsoleWarn string

text \<open>
  \<open>firstBuffer\<close> and \<open>payloadStartIndex\<close> are the constants \<^verbatim>\<open>buffer\<close> and
  \<^verbatim>\<open>payloadStartIndex\<close> of the handler run for the first message, which the connect
  callback captures. \<open>pipes\<close> counts the calls of \<^verbatim>\<open>pipeRemoteToWebSocket\<close>, each of
  which registers one more set of handlers on the socket.
\<close>

record session =
  ws :: connection
  remoteSocket :: connection
  addressRemote :: string
  portRemote :: nat
  isFirstMessage :: bool
  isHeaderProcessed :: bool
  firstBuffer :: buffer
  payloadStartIndex :: nat
  pipes :: nat
  trace :: "action list"

definition initial :: session where
  "initial = \<lparr>ws = WebSocket 1, remoteSocket = Null, addressRemote = [], portRemote = 0,
               isFirstMessage = True, isHeaderProcessed = False, firstBuffer = [],
               payloadStartIndex = 0, pipes = 0, trace = []\<rparr>"

text \<open>The events the runtime delivers, and the changes it makes to the two objects.\<close>

datatype event =
    Message buffer
  | WsClosed
  | WsError
  | Connected
  | SocketError
  | SocketTimeout
  | SocketData buffer
  | SocketEnd
  | ReadyStateChange nat
  | SocketDestroyed

text \<open>The connection after \<^verbatim>\<open>safeClose(connection)\<close>, when no call throws.\<close>

definition closed :: "connection \<Rightarrow> connection" where
  "closed c = (case safeClose (\<lambda>c. None) c of Inl e \<Rightarrow> c | Inr c' \<Rightarrow> c')"

text \<open>The connection after \<^verbatim>\<open>ws.close(code, reason)\<close>.\<close>

definition closedWith :: "connection \<Rightarrow> connection" where
  "closedWith c = (case closeCall (\<lambda>c. None) c of Inl e \<Rightarrow> c | Inr c' \<Rightarrow> c')"

text \<open>
  The \<^verbatim>\<open>message\<close> handler. Its \<^verbatim>\<open>catch\<close> block runs when \<^verbatim>\<open>processVlessHeader\<close>
  raises.
\<close>

definition onMessage :: "config \<Rightarrow> session \<Rightarrow> buffer \<Rightarrow> session" where
  "onMessage cfg s data =
     (let buffer = data in
      if isFirstMessage s then
        let s = s\<lparr>isFirstMessage := False\<rparr> in
        (case processVlessHeader buffer (UUID cfg) of
           Inl error \<Rightarrow>
             s\<lparr>remoteSocket := closed (remoteSocket s),
               ws := closedWith (ws s),
               trace := trace s @ [WsClose 1011 ''Internal server error'']\<rparr>
         | Inr (Failure m) \<Rightarrow>
             s\<lparr>ws := closedWith (ws s), trace := trace s @ [WsClose 1008 m]\<rparr>
         | Inr (Success vlessInfo) \<Rightarrow>
             s\<lparr>addressRemote := header.addressRemote vlessInfo,
               portRemote := header.portRemote vlessInfo,
               firstBuffer := buffer,
               payloadStartIndex := rawDataIndex vlessInfo,
               remoteSocket := Socket False,
               trace := trace s @
                 [NetConnect (header.addressRemote vlessInfo) (header.portRemote vlessInfo),
                  SocketSetTimeout (if TIMEOUT cfg = 0 then 300000 else TIMEOUT cfg)]\<rparr>)
      else if remoteSocket s \<noteq> Null \<and> isHeaderProcessed s \<and> remoteSocket s \<noteq> Socket True then
        s\<lparr>trace := trace s @ [SocketWrite buffer]\<rparr>
      else if \<not> isHeaderProcessed s then
        s\<lparr>trace := trace s @
            [ConsoleWarn (''['' @ addressRemote s @ '':'' @ toString10 (portRemote s)
                          @ ''] Received data before connection ready'')]\<rparr>
      else s)"

text \<open>The callback given to \<^verbatim>\<open>net.connect\<close>.\<close>

definition onConnected :: "session \<Rightarrow> session" where
  "onConnected s =
     (let s = s\<lparr>isHeaderProcessed := True\<rparr>;
          s = (if payloadStartIndex s < length (firstBuffer s) then
                 let initialPayload = drop (payloadStartIndex s) (firstBuffer s)
                 in s\<lparr>trace := trace s @ [SocketWrite initialPayload]\<rparr>
               else s)
      in s\<lparr>pipes := pipes s + 1\<rparr>)"

text \<open>
  The handlers that \<^verbatim>\<open>pipeRemoteToWebSocket\<close> registers, for one registration: on
  \<^verbatim>\<open>data\<close>, on \<^verbatim>\<open>end\<close> and on \<^verbatim>\<open>error\<close>.
\<close>

definition pipeData :: "buffer \<Rightarrow> session \<Rightarrow> session" where
  "pipeData chunk s =
     (if readyStateOf (ws s) = Inr (Number 1) then s\<lparr>trace := trace s @ [WsSend chunk]\<rparr> else s)"

definition pipeClose :: "session \<Rightarrow> session" where
  "pipeClose s = s\<lparr>ws := closed (ws s)\<rparr>"

text \<open>
  One event. The handlers of the socket exist once the socket does; those of
  \<^verbatim>\<open>pipeRemoteToWebSocket\<close> run once for each registration, after the handler that
  \<^verbatim>\<open>handleWebSocketUpgrade\<close> registered itself.
\<close>

definition step :: "config \<Rightarrow> session \<Rightarrow> event \<Rightarrow> session" where
  "step cfg s e =
     (case e of
        Message data \<Rightarrow> onMessage cfg s data
      | WsClosed \<Rightarrow> s\<lparr>remoteSocket := closed (remoteSocket s)\<rparr>
      | WsError \<Rightarrow> s\<lparr>remoteSocket := closed (remoteSocket s), ws := closed (ws s)\<rparr>
      | Connected \<Rightarrow> (if remoteSocket s = Null then s else onConnected s)
      | SocketError \<Rightarrow>
          (if remoteSocket s = Null then s
           else
             ((pipeClose ^^ pipes s)
                (s\<lparr>ws := closedWith (ws s),
                   remoteSocket := closed (remoteSocket s),
                   trace := trace s @ [WsClose 1011 ''Remote connection failed'']\<rparr>)))
      | SocketTimeout \<Rightarrow>
          (if remoteSocket s = Null then s
           else s\<lparr>remoteSocket := closed (remoteSocket s), ws := closed (ws s)\<rparr>)
      | SocketData chunk \<Rightarrow> ((pipeData chunk ^^ pipes s) s)
      | SocketEnd \<Rightarrow> ((pipeClose ^^ pipes s) s)
      | ReadyStateChange n \<Rightarrow> (case ws s of WebSocket m \<Rightarrow> s\<lparr>ws := WebSocket n\<rparr> | _ \<Rightarrow> s)
      | SocketDestroyed \<Rightarrow> (case remoteSocket s of Socket d \<Rightarrow> s\<lparr>remoteSocket := Socket True\<rparr> | _ \<Rightarrow> s))"

text \<open>An execution of a session: the events in the order the runtime delivers them.\<close>

definition run :: "config \<Rightarrow> event list \<Rightarrow> session" where
  "run cfg events = foldl (step cfg) initial events"

fun isMessage :: "event \<Rightarrow> bool" where
  "isMessage (Message data) = True"
| "isMessage e = False"

definition connects :: "action list \<Rightarrow> action list" where
  "connects as = filter (\<lambda>a. case a of NetConnect host port \<Rightarrow> True | _ \<Rightarrow> False) as"

definition writes :: "action list \<Rightarrow> buffer list" where
  "writes as = concat (map (\<lambda>a. case a of SocketWrite bytes \<Rightarrow> [bytes] | _ \<Rightarrow> []) as)"

section \<open>The message listener of websocket-handler.js\<close>

text \<open>
  The second handler, \<^verbatim>\<open>handleVlessWebSocket\<close>, keeps \<^verbatim>\<open>remoteSocket\<close>,
  \<^verbatim>\<open>addressRemote\<close> and \<^verbatim>\<open>portRemote\<close> and decides by \<^verbatim>\<open>!remoteSocket\<close> whether a
  message is the first one. Its names carry the suffix W. It is modelled with the second
  parser, for the file vless-parser.js beside it, and with the same trace of calls:
  \<open>WsClose\<close> for \<^verbatim>\<open>server.close(code, reason)\<close>, \<open>NetConnect\<close> for the call
  \<^verbatim>\<open>connect({hostname, port})\<close>, \<open>SocketWrite\<close> for
  \<^verbatim>\<open>writer.write(bytes)\<close> and \<open>WsSend\<close> for \<^verbatim>\<open>webSocket.send(value)\<close>. The listener
  awaits its writes: \<open>writerLocked\<close> holds while a writer is taken and its write is
  pending, and \<open>reading\<close> while the loop of \<^verbatim>\<open>pipeRemoteToWebSocket\<close> waits for a read.
  The events are the \<^verbatim>\<open>message\<close>, \<^verbatim>\<open>close\<close> and \<^verbatim>\<open>error\<close> events of the WebSocket, the
  outcomes of the pending write and of the pending read, and a change of
  \<^verbatim>\<open>readyState\<close> by the runtime.
\<close>

record worker =
  server :: connection
  remoteSocketW :: connection
  addressRemoteW :: string
  portRemoteW :: nat
  writerLocked :: bool
  reading :: bool
  traceW :: "action list"



text \<open>The connection after \<^verbatim>\<open>safeCloseWebSocket(ws)\<close>, when no call throws.\<close>

definition closedW :: "connection \<Rightarrow> connection" where
  "closedW c = (case safeCloseWebSocket (\<lambda>c. None) c of Inl e \<Rightarrow> c | Inr c' \<Rightarrow> c')"







section \<open>Configured tokens, and the shape of a canonical token\<close>

text \<open>The \<^verbatim>\<open>UUID\<close> of src/config.js, and that of the second configuration file.\<close>

definition CONFIG_UUID :: string where
  "CONFIG_UUID = ''8cd43dab-a5ae-4634-b9b1-726a262f-25f6-4280-8c7b-97d67b3e1298''"

definition CONFIG_UUID2 :: string where
  "CONFIG_UUID2 = ''8cd43dab-a5ae-4634-b9b1-3efa38615e0d''"

definition isHexLower :: "char \<Rightarrow> bool" where
  "isHexLower c = (c \<in> set ''0123456789abcdef'')"

text \<open>
  36 characters: groups of 8, 4, 4, 4 and 12 lowercase hexadecimal digits, with a dash
  after each of the first four groups.
\<close>

definition isCanonicalUUID :: "string \<Rightarrow> bool" where
  "isCanonicalUUID s =
     (length s = 36 \<and>
      list_all isHexLower (slice s 0 8) \<and> slice s 8 9 = ''-'' \<and>
      list_all isHexLower (slice s 9 13) \<and> slice s 13 14 = ''-'' \<and>
      list_all isHexLower (slice s 14 18) \<and> slice s 18 19 = ''-'' \<and>
      list_all isHexLower (slice s 19 23) \<and> slice s 23 24 = ''-'' \<and>
      list_all isHexLower (slice s 24 36))"


text \<open>
  The same width as the second parser computes it, where the length byte of a name can
  be \<^verbatim>\<open>undefined\<close>.
\<close>

definition addressFieldWidth2 :: "jsnum \<Rightarrow> jsnum \<Rightarrow> jsnum" where
  "addressFieldWidth2 type domainLength =
     (if type = Some 1 then Some 4
      else if type = Some 2 then jsAdd (Some 1) domainLength
      else if type = Some 3 then Some 16 else None)"

section \<open>Concrete messages\<close>

text \<open>The 16 bytes whose canonical form is the token of the second configuration file.\<close>

definition tokenBytes :: buffer where
  "tokenBytes = [140, 212, 61, 171, 165, 174, 70, 52, 185, 177, 62, 250, 56, 97, 94, 13]"

text \<open>
  A complete header for a TCP connection to 127.0.0.1, port 80, followed by the three
  payload bytes of \<^verbatim>\<open>GET\<close>.
\<close>

definition goodMessage :: buffer where
  "goodMessage = [0] @ tokenBytes @ [0, 1, 0, 80, 1, 127, 0, 0, 1] @ [71, 69, 84]"

text \<open>What the two parsers return for it.\<close>

definition goodHeader :: header where
  "goodHeader = \<lparr>header.addressRemote = ''127.0.0.1'', portRemote = 80, rawDataIndex = 26,
                  vlessVersion = 0, command = 1, addressType = 1,
                  message = ''VLESS header parsed successfully''\<rparr>"

definition goodHeader2 :: header2 where
  "goodHeader2 = \<lparr>addressRemote2 = ''127.0.0.1'', portRemote2 = 80, rawDataIndex2 = Some 26,
                   command2 = Some 1\<rparr>"

text \<open>The same header with sixteen zero bytes as token.\<close>

definition wrongTokenMessage :: buffer where
  "wrongTokenMessage = [0] @ replicate 16 0 @ [0, 1, 0, 80, 1, 127, 0, 0, 1]"

text \<open>23 bytes with version byte 1 and a token of zero bytes.\<close>

definition versionOneMessage :: buffer where
  "versionOneMessage = [1] @ replicate 22 0"

text \<open>A header of 23 bytes: a domain name of length 0, and no payload.\<close>

definition emptyDomainMessage :: buffer where
  "emptyDomainMessage = [0] @ tokenBytes @ [0, 1, 0, 80, 2, 0]"

text \<open>
  Two messages of 24 bytes that end inside the address field: an IPv4 address with two of
  its four bytes, and an IPv6 address with two of its sixteen.
\<close>

definition truncatedIPv4Message :: buffer where
  "truncatedIPv4Message = [0] @ tokenBytes @ [0, 1, 0, 80, 1, 127, 0]"

definition truncatedIPv6Message :: buffer where
  "truncatedIPv6Message = [0] @ tokenBytes @ [0, 1, 0, 80, 3, 1, 2]"


section \<open>Phases of a session\<close>

text \<open>
  What holds of a session of websocket-proxy.js before its first message, after a first
  message that the parser rejected, and after a first message \<open>m\<close> that the parser
  accepted with payload offset \<open>i\<close>.
\<close>

definition awaiting :: "session \<Rightarrow> bool" where
  "awaiting s =
     (isFirstMessage s \<and> remoteSocket s = Null \<and> \<not> isHeaderProcessed s \<and> pipes s = 0
      \<and> trace s = [])"

definition rejected :: "session \<Rightarrow> bool" where
  "rejected s =
     (\<not> isFirstMessage s \<and> remoteSocket s = Null \<and> \<not> isHeaderProcessed s \<and> pipes s = 0
      \<and> connects (trace s) = [] \<and> writes (trace s) = [])"


text \<open>
  A handler run from \<open>s\<close> to \<open>s'\<close> is quiet when it leaves the closure variables as
  they are, creates no socket, and adds neither a connect nor a write to the trace.
\<close>

definition quiet :: "session \<Rightarrow> session \<Rightarrow> bool" where
  "quiet s s' =
     (isFirstMessage s' = isFirstMessage s \<and> isHeaderProcessed s' = isHeaderProcessed s
      \<and> (remoteSocket s' = Null) = (remoteSocket s = Null) \<and> firstBuffer s' = firstBuffer s
      \<and> payloadStartIndex s' = payloadStartIndex s \<and> pipes s' = pipes s
      \<and> writes (trace s') = writes (trace s) \<and> connects (trace s') = connects (trace s)
      \<and> (\<exists>more. trace s' = trace s @ more))"

section \<open>The canonical form of a token\<close>

lemma digitChar_hex_all: "list_all (\<lambda>d. isHexLower (digitChar d)) [0..<16]"
  by code_simp

lemma digitChar_hex:
  assumes "d < 16"
  shows "isHexLower (digitChar d)"
proof -
  from assms have "d \<in> set [0..<16]" by simp
  with digitChar_hex_all show ?thesis
    unfolding list_all_iff by blast
qed

lemma toString16_small: "n < 16 \<Longrightarrow> toString16 n = [digitChar n]"
  by (simp add: toString16_def toStringRadix.simps)

lemma toString16_byte:
  assumes "16 \<le> n" and "n < 256"
  shows "toString16 n = [digitChar (n div 16), digitChar (n mod 16)]"
proof -
  from assms have "n div 16 < 16" by simp
  with assms show ?thesis
    by (simp add: toString16_def toStringRadix.simps [of 16 n] toStringRadix.simps [of 16 "n div 16"])
qed

lemma hexByte_length: "n < 256 \<Longrightarrow> length (padStart 2 CHR ''0'' (toString16 n)) = 2"
  by (cases "n < 16") (simp_all add: padStart_def toString16_small toString16_byte)

lemma hexByte_hex:
  assumes "n < 256"
  shows "list_all isHexLower (padStart 2 CHR ''0'' (toString16 n))"
proof (cases "n < 16")
  case True
  then show ?thesis
    by (simp add: padStart_def toString16_small digitChar_hex) (simp add: isHexLower_def)
next
  case False
  with assms have "n div 16 < 16" "n mod 16 < 16" "16 \<le> n" by simp_all
  with assms show ?thesis
    by (simp add: padStart_def toString16_byte digitChar_hex)
qed

lemma unat_byte_lt: "unat (b :: byte) < 256"
  using unsigned_less [of b, where ?'a = nat] by simp

lemma hexOfBytes_length:
  "length (concat (map (\<lambda>b. padStart 2 CHR ''0'' (toString16 (unat b))) (bytes :: buffer)))
     = 2 * length bytes"
  by (induction bytes) (simp_all add: hexByte_length unat_byte_lt)

lemma hexOfBytes_hex:
  "list_all isHexLower (concat (map (\<lambda>b. padStart 2 CHR ''0'' (toString16 (unat b))) (bytes :: buffer)))"
  by (induction bytes) (simp_all add: hexByte_hex unat_byte_lt)

lemma list_all_slice: "list_all P xs \<Longrightarrow> list_all P (slice xs a b)"
  by (metis slice_def list_all_iff set_drop_subset set_take_subset subsetD)

lemma list_all_drop: "list_all P xs \<Longrightarrow> list_all P (drop a xs)"
  by (metis list_all_iff set_drop_subset subsetD)

lemma length_slice: "length (slice xs a b) = min (b - a) (length xs - a)"
  by (simp add: slice_def)

lemma canonical_groups:
  assumes "length a = 8" "length b = 4" "length c = 4" "length d = 4" "length e = 12"
    and "list_all isHexLower a" "list_all isHexLower b" "list_all isHexLower c"
      "list_all isHexLower d" "list_all isHexLower e"
  shows "isCanonicalUUID (a @ ''-'' @ b @ ''-'' @ c @ ''-'' @ d @ ''-'' @ e)"
  using assms by (simp add: isCanonicalUUID_def slice_def)

lemma bytesToUUID_canonical:
  assumes "length bytes = 16"
  shows "\<exists>s. bytesToUUID bytes = Inr s \<and> isCanonicalUUID s"
proof -
  let ?hex = "concat (map (\<lambda>b. padStart 2 CHR ''0'' (toString16 (unat b))) bytes)"
  have len: "length ?hex = 32" using assms by (simp add: hexOfBytes_length)
  have hex: "list_all isHexLower ?hex" by (rule hexOfBytes_hex)
  have "isCanonicalUUID (slice ?hex 0 8 @ ''-'' @ slice ?hex 8 12 @ ''-'' @ slice ?hex 12 16
          @ ''-'' @ slice ?hex 16 20 @ ''-'' @ slice ?hex 20 32)"
    by (rule canonical_groups) (simp_all add: length_slice len list_all_slice hex)
  then show ?thesis using assms
    by (simp add: bytesToUUID_def Let_def)
qed

lemma bytesToUUID2_canonical:
  assumes "length bytes = 16"
  shows "isCanonicalUUID (bytesToUUID2 bytes)"
proof -
  let ?hex = "concat (map (\<lambda>b. padStart 2 CHR ''0'' (toString16 (unat b))) bytes)"
  have len: "length ?hex = 32" using assms by (simp add: hexOfBytes_length)
  have hex: "list_all isHexLower ?hex" by (rule hexOfBytes_hex)
  have "isCanonicalUUID (slice ?hex 0 8 @ ''-'' @ slice ?hex 8 12 @ ''-'' @ slice ?hex 12 16
          @ ''-'' @ slice ?hex 16 20 @ ''-'' @ drop 20 ?hex)"
    by (rule canonical_groups) (simp_all add: length_slice len list_all_slice list_all_drop hex)
  then show ?thesis
    by (simp add: bytesToUUID2_def Let_def)
qed

lemma tokenBytes_length: "17 \<le> length (buf :: buffer) \<Longrightarrow> length (slice buf 1 17) = 16"
  by (simp add: length_slice)

section \<open>Facts about the two parsers\<close>

lemma andThen_Inr [simp]: "andThen (Inr v) k = k v"
  by (simp add: andThen_def)

lemma andThen_Inl [simp]: "andThen (Inl e) k = Inl e"
  by (simp add: andThen_def)

lemma readByte_inside [simp]: "i < length buf \<Longrightarrow> readByte buf i = Inr (unat (buf ! i))"
  by (simp add: readByte_def)

lemma ipv6Loop_total:
  "offset + 16 \<le> length buf \<Longrightarrow> even i \<Longrightarrow> \<exists>parts. ipv6Loop buf offset i acc = Inr parts"
proof (induction buf offset i acc rule: ipv6Loop.induct)
  case (1 buf offset i acc)
  show ?case
  proof (cases "i < 16")
    case False
    then show ?thesis by (simp add: ipv6Loop.simps [of buf offset i acc])
  next
    case True
    with \<open>even i\<close> have "i + 1 < 16" by presburger
    with "1.prems" have in1: "offset + i < length buf" and in2: "offset + i + 1 < length buf"
      by simp_all
    have "\<exists>parts. ipv6Loop buf offset (i + 2)
            (acc @ [toString16 (push_bit 8 (unat (buf ! (offset + i))) OR unat (buf ! (offset + i + 1)))]) = Inr parts"
      using "1.IH" in1 in2 "1.prems" True
      by (simp add: readByte_def)
    then show ?thesis
      using in1 in2 True by (subst ipv6Loop.simps) simp
  qed
qed

lemma parseAddress_total: "\<exists>r. parseAddress buf offset t = Inr r"
proof -
  have "offset + 16 \<le> length buf \<Longrightarrow> \<exists>parts. ipv6Loop buf offset 0 [] = Inr parts"
    by (rule ipv6Loop_total) simp_all
  then show ?thesis
    by (auto simp: parseAddress_def Let_def)
qed


lemma processVlessHeader_total: "\<exists>r. processVlessHeader buf tok = Inr r"
proof (cases "length buf < 23")
  case True
  then show ?thesis by (simp add: processVlessHeader_def)
next
  case False
  then have "length (slice buf 1 17) = 16" by (intro tokenBytes_length) simp
  then obtain s where s: "bytesToUUID (slice buf 1 17) = Inr s"
    using bytesToUUID_canonical by blast
  show ?thesis
    using False s parseAddress_total [of buf "22 + unat (buf ! 17)" "unat (buf ! (21 + unat (buf ! 17)))"]
    unfolding processVlessHeader_def Let_def andThen_def readByte_def
    by (auto split: result.splits sum.splits)
qed

lemma processVlessHeader_Success_parse:
  assumes "processVlessHeader buf tok = Inr (Success h)"
  shows "23 \<le> length buf \<and> unat (buf ! 0) = 0 \<and> bytesToUUID (slice buf 1 17) = Inr tok
         \<and> 22 + unat (buf ! 17) \<le> length buf
         \<and> unat (buf ! (18 + unat (buf ! 17))) = 1
         \<and> addressType h = unat (buf ! (21 + unat (buf ! 17)))
         \<and> (\<exists>a. parseAddress buf (22 + unat (buf ! 17)) (addressType h)
                  = Inr (Success (a, rawDataIndex h)))"
  using assms
  unfolding processVlessHeader_def Let_def andThen_def readByte_def validateCommand_def
  by (auto split: result.splits sum.splits if_splits)


lemma processVlessHeader_short:
  "length buf < 23 \<Longrightarrow> processVlessHeader buf tok = Inr (Failure ''Invalid VLESS header: buffer too short'')"
  by (simp add: processVlessHeader_def)

lemma processVlessHeader_long:
  assumes "23 \<le> length buf"
  shows "processVlessHeader buf tok \<noteq> Inr (Failure ''Invalid VLESS header: buffer too short'')"
proof -
  have "length (slice buf 1 17) = 16" using assms by (intro tokenBytes_length) simp
  then obtain s where s: "bytesToUUID (slice buf 1 17) = Inr s"
    using bytesToUUID_canonical by blast
  have pa: "parseAddress buf offset t \<noteq> Inr (Failure ''Invalid VLESS header: buffer too short'')" for offset t
    using ipv6Loop_total [of offset buf 0 "[]"]
    by (auto simp: parseAddress_def Let_def)
  show ?thesis
    using assms s pa [of "22 + unat (buf ! 17)" "unat (buf ! (21 + unat (buf ! 17)))"]
    unfolding processVlessHeader_def Let_def andThen_def readByte_def
    by (auto split: result.splits sum.splits)
qed

lemma processVlessHeader_auth:
  assumes "23 \<le> length buf" and "unat (buf ! 0) = 0"
    and "bytesToUUID (slice buf 1 17) = Inr u" and "u \<noteq> tok"
  shows "processVlessHeader buf tok = Inr (Failure ''Authentication failed: Invalid UUID'')"
  using assms
  unfolding processVlessHeader_def Let_def andThen_def readByte_def
  by auto

lemma processVlessHeader2_short:
  "length buf < 24 \<Longrightarrow> processVlessHeader2 buf tok = Failure ''Buffer too short''"
  by (simp add: processVlessHeader2_def)

lemma processVlessHeader2_long:
  "24 \<le> length buf \<Longrightarrow> processVlessHeader2 buf tok \<noteq> Failure ''Buffer too short''"
  by (simp add: processVlessHeader2_def Let_def)

lemma processVlessHeader2_auth:
  assumes "24 \<le> length buf" and "unat (buf ! 0) = 0" and "bytesToUUID2 (slice buf 1 17) \<noteq> tok"
  shows "processVlessHeader2 buf tok = Failure ''Invalid UUID''"
  using assms by (auto simp: processVlessHeader2_def Let_def element_def)

lemma processVlessHeader2_Success:
  assumes "processVlessHeader2 buf tok = Success h"
  shows "24 \<le> length buf" and "bytesToUUID2 (slice buf 1 17) = tok"
    and "rawDataIndex2 h =
           jsAdd (Some (22 + unat (buf ! 17)))
             (addressFieldWidth2 (element buf (Some (21 + unat (buf ! 17))))
                (element buf (Some (22 + unat (buf ! 17)))))"
  using assms
  by (auto simp: processVlessHeader2_def Let_def element_def jsAdd_def addressFieldWidth2_def
           split: if_splits)

section \<open>Evaluation on the concrete messages\<close>

lemma goodMessage_parsed: "processVlessHeader goodMessage CONFIG_UUID2 = Inr (Success goodHeader)"
  by code_simp

lemma goodMessage_parsed2: "processVlessHeader2 goodMessage CONFIG_UUID2 = Success goodHeader2"
  by code_simp

section \<open>The token a parser can accept\<close>

lemma accepted_token_canonical:
  assumes "processVlessHeader buf tok = Inr (Success h)"
  shows "isCanonicalUUID tok"
proof -
  from processVlessHeader_Success_parse [OF assms]
  have len: "23 \<le> length buf" and tok: "bytesToUUID (slice buf 1 17) = Inr tok" by simp_all
  from len have "length (slice buf 1 17) = 16" by (intro tokenBytes_length) simp
  with tok show ?thesis using bytesToUUID_canonical by fastforce
qed

lemma accepted_token_canonical2:
  assumes "processVlessHeader2 buf tok = Success h"
  shows "isCanonicalUUID tok"
proof -
  from processVlessHeader2_Success [OF assms]
  have len: "24 \<le> length buf" and tok: "bytesToUUID2 (slice buf 1 17) = tok" by simp_all
  from len have "length (slice buf 1 17) = 16" by (intro tokenBytes_length) simp
  with tok show ?thesis using bytesToUUID2_canonical by blast
qed

lemma other_token_fails:
  assumes "\<not> isCanonicalUUID tok"
  shows "\<exists>m. processVlessHeader buf tok = Inr (Failure m)"
proof -
  obtain r where r: "processVlessHeader buf tok = Inr r"
    using processVlessHeader_total by blast
  with assms accepted_token_canonical show ?thesis by (cases r) auto
qed

lemma other_token_fails2:
  assumes "\<not> isCanonicalUUID tok"
  shows "\<exists>m. processVlessHeader2 buf tok = Failure m"
  using assms accepted_token_canonical2 by (cases "processVlessHeader2 buf tok") auto

lemma CONFIG_UUID_not_canonical: "\<not> isCanonicalUUID CONFIG_UUID"
  by code_simp

text \<open>
  Claim C10. \<^verbatim>\<open>bytesToUUID\<close> turns 16 bytes into a string of 36 characters, lowercase
  hexadecimal digits in groups of 8, 4, 4, 4 and 12 separated by dashes, in both parsers.
  So a parser can succeed only for an expected token of that shape: for any other token,
  such as the \<^verbatim>\<open>UUID\<close> of src/config.js, it returns a failure for every buffer, and
  that failure is the authentication failure as soon as the buffer passes the length and
  version checks.
\<close>

theorem canonical_token_required:
  "(length bytes = 16 \<longrightarrow>
      (\<exists>s. bytesToUUID bytes = Inr s \<and> isCanonicalUUID s) \<and> isCanonicalUUID (bytesToUUID2 bytes))
   \<and> (processVlessHeader buf tok = Inr (Success h) \<longrightarrow> isCanonicalUUID tok)
   \<and> (processVlessHeader2 buf tok = Success h2 \<longrightarrow> isCanonicalUUID tok)
   \<and> (\<not> isCanonicalUUID tok' \<longrightarrow>
        (\<exists>m. processVlessHeader buf' tok' = Inr (Failure m))
        \<and> (\<exists>m. processVlessHeader2 buf' tok' = Failure m)
        \<and> (23 \<le> length buf' \<and> unat (buf' ! 0) = 0 \<longrightarrow>
             processVlessHeader buf' tok' = Inr (Failure ''Authentication failed: Invalid UUID''))
        \<and> (24 \<le> length buf' \<and> unat (buf' ! 0) = 0 \<longrightarrow>
             processVlessHeader2 buf' tok' = Failure ''Invalid UUID''))
   \<and> \<not> isCanonicalUUID CONFIG_UUID"
proof -
  have auth: "processVlessHeader buf' tok' = Inr (Failure ''Authentication failed: Invalid UUID'')"
    if "\<not> isCanonicalUUID tok'" and "23 \<le> length buf'" and "unat (buf' ! 0) = 0"
  proof -
    from that have "length (slice buf' 1 17) = 16" by (intro tokenBytes_length) simp
    then obtain u where u: "bytesToUUID (slice buf' 1 17) = Inr u" and "isCanonicalUUID u"
      using bytesToUUID_canonical by blast
    with that have "u \<noteq> tok'" by auto
    with that u show ?thesis by (intro processVlessHeader_auth)
  qed
  have auth2: "processVlessHeader2 buf' tok' = Failure ''Invalid UUID''"
    if "\<not> isCanonicalUUID tok'" and "24 \<le> length buf'" and "unat (buf' ! 0) = 0"
  proof -
    from that have "length (slice buf' 1 17) = 16" by (intro tokenBytes_length) simp
    then have "isCanonicalUUID (bytesToUUID2 (slice buf' 1 17))"
      by (rule bytesToUUID2_canonical)
    with that have "bytesToUUID2 (slice buf' 1 17) \<noteq> tok'" by auto
    with that show ?thesis by (intro processVlessHeader2_auth)
  qed
  show ?thesis
    using auth auth2 accepted_token_canonical accepted_token_canonical2 other_token_fails
      other_token_fails2 CONFIG_UUID_not_canonical bytesToUUID_canonical bytesToUUID2_canonical
    by blast
qed

theorem canonical_token_required_witness:
  "length tokenBytes = 16
   \<and> (\<exists>s. bytesToUUID tokenBytes = Inr s \<and> isCanonicalUUID s)
   \<and> isCanonicalUUID (bytesToUUID2 tokenBytes)
   \<and> isCanonicalUUID CONFIG_UUID2
   \<and> \<not> isCanonicalUUID CONFIG_UUID
   \<and> processVlessHeader goodMessage CONFIG_UUID = Inr (Failure ''Authentication failed: Invalid UUID'')
   \<and> processVlessHeader2 goodMessage CONFIG_UUID = Failure ''Invalid UUID''"
proof -
  have h1: "length tokenBytes = 16" by code_simp
  have h2: "23 \<le> length goodMessage" "24 \<le> length goodMessage" "unat (goodMessage ! 0) = 0"
    by code_simp+
  from canonical_token_required
    [of tokenBytes goodMessage CONFIG_UUID2 goodHeader goodHeader2 CONFIG_UUID goodMessage]
    h1 h2 goodMessage_parsed goodMessage_parsed2
  show ?thesis by blast
qed

section \<open>The order of the checks\<close>

lemma token_mismatch_no_success:
  assumes "bytesToUUID (slice buf 1 17) \<noteq> Inr tok"
  shows "processVlessHeader buf tok \<noteq> Inr (Success h)"
  using assms processVlessHeader_Success_parse [of buf tok h] by auto

lemma token_mismatch_no_success2:
  assumes "bytesToUUID2 (slice buf 1 17) \<noteq> tok"
  shows "processVlessHeader2 buf tok \<noteq> Success h"
  using assms processVlessHeader2_Success(2) [of buf tok h] by auto

lemma token_mismatch_auth:
  assumes "bytesToUUID (slice buf 1 17) \<noteq> Inr tok" and "23 \<le> length buf" and "unat (buf ! 0) = 0"
  shows "processVlessHeader buf tok = Inr (Failure ''Authentication failed: Invalid UUID'')"
proof -
  from assms have "length (slice buf 1 17) = 16" by (intro tokenBytes_length) simp
  then obtain u where u: "bytesToUUID (slice buf 1 17) = Inr u"
    using bytesToUUID_canonical by blast
  with assms have "u \<noteq> tok" by auto
  with assms u show ?thesis by (intro processVlessHeader_auth)
qed

text \<open>
  Claim C2, as stated, fails: a buffer whose token bytes differ from the expected token
  does not always get the authentication failure. The version is checked before the
  token, so the message below, with version byte 1 and a token that differs, gets the
  version failure.
\<close>

theorem version_checked_before_token:
  "bytesToUUID (slice versionOneMessage 1 17) = Inr ''00000000-0000-0000-0000-000000000000''
   \<and> ''00000000-0000-0000-0000-000000000000'' \<noteq> CONFIG_UUID2
   \<and> processVlessHeader versionOneMessage CONFIG_UUID2
       = Inr (Failure ''Unsupported VLESS version: 1. Only version 0 is supported.'')
   \<and> processVlessHeader versionOneMessage CONFIG_UUID2
       \<noteq> Inr (Failure ''Authentication failed: Invalid UUID'')"
  by code_simp

text \<open>
  Claim C2, amended. A buffer whose 16 token bytes, in canonical form, differ from the
  expected token never succeeds, whatever its other fields hold; and when it passes the
  initial length check (23 bytes, 24 in the second parser) and its version byte is 0, the
  failure returned is the authentication failure. The comparison is between the two
  canonical strings.
\<close>

theorem token_mismatch_rejected:
  "(bytesToUUID (slice buf 1 17) \<noteq> Inr tok \<longrightarrow>
      (\<forall>h. processVlessHeader buf tok \<noteq> Inr (Success h))
      \<and> (23 \<le> length buf \<and> unat (buf ! 0) = 0 \<longrightarrow>
           processVlessHeader buf tok = Inr (Failure ''Authentication failed: Invalid UUID'')))
   \<and> (bytesToUUID2 (slice buf 1 17) \<noteq> tok \<longrightarrow>
      (\<forall>h. processVlessHeader2 buf tok \<noteq> Success h)
      \<and> (24 \<le> length buf \<and> unat (buf ! 0) = 0 \<longrightarrow>
           processVlessHeader2 buf tok = Failure ''Invalid UUID''))"
  using token_mismatch_no_success token_mismatch_no_success2 token_mismatch_auth
    processVlessHeader2_auth
  by blast

theorem token_mismatch_rejected_witness:
  "bytesToUUID (slice wrongTokenMessage 1 17) \<noteq> Inr CONFIG_UUID2
   \<and> bytesToUUID2 (slice wrongTokenMessage 1 17) \<noteq> CONFIG_UUID2
   \<and> 24 \<le> length wrongTokenMessage \<and> unat (wrongTokenMessage ! 0) = 0
   \<and> processVlessHeader wrongTokenMessage CONFIG_UUID2
       = Inr (Failure ''Authentication failed: Invalid UUID'')
   \<and> processVlessHeader2 wrongTokenMessage CONFIG_UUID2 = Failure ''Invalid UUID''"
proof -
  have h: "bytesToUUID (slice wrongTokenMessage 1 17) \<noteq> Inr CONFIG_UUID2"
    "bytesToUUID2 (slice wrongTokenMessage 1 17) \<noteq> CONFIG_UUID2"
    "24 \<le> length wrongTokenMessage" "23 \<le> length wrongTokenMessage"
    "unat (wrongTokenMessage ! 0) = 0"
    by code_simp+
  from token_mismatch_rejected [of wrongTokenMessage CONFIG_UUID2] h
  show ?thesis by blast
qed

section \<open>The payload offset\<close>



section \<open>The initial length check\<close>

text \<open>
  Claim C4, as stated, fails for the second parser, whose initial check asks for 24
  bytes: it rejects the header of 23 bytes below as too short.
\<close>

theorem second_parser_minimum_24:
  "length emptyDomainMessage = 23
   \<and> processVlessHeader2 emptyDomainMessage CONFIG_UUID2 = Failure ''Buffer too short''"
  by code_simp

text \<open>
  Claim C4, amended. The parser with per-field checks returns its too-short failure for
  exactly the buffers of fewer than 23 bytes, and the second parser for exactly the
  buffers of fewer than 24 bytes; a longer buffer passes this check and can only fail a
  later one.
\<close>

theorem minimum_length_check:
  "(length buf < 23 \<longleftrightarrow>
      processVlessHeader buf tok = Inr (Failure ''Invalid VLESS header: buffer too short''))
   \<and> (length buf < 24 \<longleftrightarrow> processVlessHeader2 buf tok = Failure ''Buffer too short'')"
  using processVlessHeader_short [of buf tok] processVlessHeader_long [of buf tok]
    processVlessHeader2_short [of buf tok] processVlessHeader2_long [of buf tok]
  by (metis not_less)

theorem minimum_length_check_witness:
  "length emptyDomainMessage = 23
   \<and> processVlessHeader emptyDomainMessage CONFIG_UUID2
       \<noteq> Inr (Failure ''Invalid VLESS header: buffer too short'')
   \<and> processVlessHeader2 emptyDomainMessage CONFIG_UUID2 = Failure ''Buffer too short''"
proof -
  have "length emptyDomainMessage = 23" by code_simp
  with minimum_length_check [of emptyDomainMessage CONFIG_UUID2] show ?thesis by simp
qed

section \<open>Buffers that end inside a field\<close>

text \<open>
  The parser with per-field checks always returns an object: it raises no exception and
  reads no element beyond the buffer (\<open>processVlessHeader_total\<close>), and when it succeeds
  the payload offset lies within the buffer (\<open>processVlessHeader_Success\<close>). The second
  parser has none of the per-field checks.
\<close>

text \<open>
  Claim C1 (a buffer too short for a field gets a failure, and nothing beyond the buffer
  is read) does not hold of the second parser. The message below has 24 bytes and ends
  after two of the four bytes of its IPv4 address: the second parser returns success,
  with the address 127.0 and payload offset 26, where the parser with per-field checks
  returns its failure for an incomplete IPv4 address.
\<close>

theorem truncated_address_accepted:
  "length truncatedIPv4Message = 24
   \<and> processVlessHeader2 truncatedIPv4Message CONFIG_UUID2 =
       Success \<lparr>addressRemote2 = ''127.0'', portRemote2 = 80, rawDataIndex2 = Some 26,
                 command2 = Some 1\<rparr>
   \<and> processVlessHeader truncatedIPv4Message CONFIG_UUID2 =
       Inr (Failure ''Invalid VLESS header: incomplete IPv4 address'')"
  by code_simp

text \<open>
  Claim C9 (on success the payload offset is at most the length of the buffer) does not
  hold of the second parser. The message below has 24 bytes and ends after two of the
  sixteen bytes of its IPv6 address: the second parser reads the missing bytes as
  \<^verbatim>\<open>undefined\<close> and returns success with payload offset 38, where the parser with
  per-field checks returns its failure for an incomplete IPv6 address.
\<close>

theorem payload_offset_beyond_buffer:
  "length truncatedIPv6Message = 24
   \<and> processVlessHeader2 truncatedIPv6Message CONFIG_UUID2 =
       Success \<lparr>addressRemote2 = ''102:0:0:0:0:0:0:0'', portRemote2 = 80,
                 rawDataIndex2 = Some 38, command2 = Some 1\<rparr>
   \<and> processVlessHeader truncatedIPv6Message CONFIG_UUID2 =
       Inr (Failure ''Invalid VLESS header: incomplete IPv6 address'')"
  by code_simp

section \<open>Closing a connection\<close>

lemma safeClose_returns: "\<exists>c'. safeClose throws c = Inr c'"
  by (cases "if c \<noteq> Null then
          andThen (readyStateOf c) (\<lambda>readyState.
            if readyState = Number 1 \<or> readyState = Number 0 then closeCall throws c
            else
              andThen (destroyedOf c) (\<lambda>destroyed.
                if destroyed = Boolean False then destroyCall throws c
                else Inr c))
        else Inr c")
     (simp_all add: safeClose_def tryCatch_def)

lemma safeCloseWebSocket_returns: "\<exists>c'. safeCloseWebSocket throws c = Inr c'"
  by (cases "andThen (readyStateOf c) (\<lambda>readyState.
          if readyState = Number 1 \<or> readyState = Number 0 then closeCall throws c
          else Inr c)")
     (simp_all add: safeCloseWebSocket_def tryCatch_def)

lemma safeClose_closed:
  "safeClose throws Null = Inr Null"
  "safeClose throws (WebSocket 2) = Inr (WebSocket 2)"
  "safeClose throws (WebSocket 3) = Inr (WebSocket 3)"
  "safeClose throws (Socket True) = Inr (Socket True)"
  by (simp_all add: safeClose_def tryCatch_def andThen_def)

lemma safeCloseWebSocket_closed:
  "safeCloseWebSocket throws Null = Inr Null"
  "safeCloseWebSocket throws (WebSocket 2) = Inr (WebSocket 2)"
  "safeCloseWebSocket throws (WebSocket 3) = Inr (WebSocket 3)"
  by (simp_all add: safeCloseWebSocket_def tryCatch_def andThen_def)

lemma safeClose_twice: "safeClose throws (closed c) = Inr (closed c)"
  by (cases c)
     (auto simp: closed_def safeClose_def tryCatch_def andThen_def closeCall_def destroyCall_def)

lemma safeCloseWebSocket_twice: "safeCloseWebSocket throws (closedW c) = Inr (closedW c)"
  by (cases c)
     (auto simp: closedW_def safeCloseWebSocket_def tryCatch_def andThen_def closeCall_def)

text \<open>
  Claim C7. \<^verbatim>\<open>safeClose\<close> and \<^verbatim>\<open>safeCloseWebSocket\<close> never raise: for a connection in
  any state (\<^verbatim>\<open>null\<close>, a WebSocket connecting, open, closing or closed, a socket destroyed
  or not), and even when the \<^verbatim>\<open>close\<close> or \<^verbatim>\<open>destroy\<close> they call throws, the call returns;
  so does a second call on the connection the first one left. On a connection that is
  \<^verbatim>\<open>null\<close>, closing, closed or destroyed, and on one that a first call has closed, the
  call does nothing and leaves the connection as it is.
\<close>

theorem safe_close_never_raises:
  "(\<exists>c'. safeClose throws c = Inr c' \<and> (\<exists>c''. safeClose throws' c' = Inr c''))
   \<and> (\<exists>c'. safeCloseWebSocket throws c = Inr c' \<and> (\<exists>c''. safeCloseWebSocket throws' c' = Inr c''))
   \<and> safeClose throws Null = Inr Null
   \<and> safeClose throws (WebSocket 2) = Inr (WebSocket 2)
   \<and> safeClose throws (WebSocket 3) = Inr (WebSocket 3)
   \<and> safeClose throws (Socket True) = Inr (Socket True)
   \<and> safeCloseWebSocket throws Null = Inr Null
   \<and> safeCloseWebSocket throws (WebSocket 2) = Inr (WebSocket 2)
   \<and> safeCloseWebSocket throws (WebSocket 3) = Inr (WebSocket 3)
   \<and> safeClose throws (closed c) = Inr (closed c)
   \<and> safeCloseWebSocket throws (closedW c) = Inr (closedW c)"
  using safeClose_returns safeCloseWebSocket_returns
  by (simp add: safeClose_closed safeCloseWebSocket_closed safeClose_twice safeCloseWebSocket_twice)

section \<open>Sessions of websocket-proxy.js\<close>

lemma closed_Null [simp]: "closed Null = Null"
  by (simp add: closed_def safeClose_def tryCatch_def)

lemma writes_append [simp]: "writes (xs @ ys) = writes xs @ writes ys"
  by (simp add: writes_def)

lemma connects_append [simp]: "connects (xs @ ys) = connects xs @ connects ys"
  by (simp add: connects_def)

lemma writes_simps [simp]:
  "writes [] = []"
  "writes (SocketWrite b # xs) = b # writes xs"
  "writes (WsClose c r # xs) = writes xs"
  "writes (WsSend b # xs) = writes xs"
  "writes (NetConnect a p # xs) = writes xs"
  "writes (SocketSetTimeout n # xs) = writes xs"
  "writes (ConsoleWarn w # xs) = writes xs"
  by (simp_all add: writes_def)

lemma connects_simps [simp]:
  "connects [] = []"
  "connects (SocketWrite b # xs) = connects xs"
  "connects (WsClose c r # xs) = connects xs"
  "connects (WsSend b # xs) = connects xs"
  "connects (NetConnect a p # xs) = NetConnect a p # connects xs"
  "connects (SocketSetTimeout n # xs) = connects xs"
  "connects (ConsoleWarn w # xs) = connects xs"
  by (simp_all add: connects_def)

lemma step_simps:
  "step cfg s (Message d) = onMessage cfg s d"
  "step cfg s WsClosed = s\<lparr>remoteSocket := closed (remoteSocket s)\<rparr>"
  "step cfg s WsError = s\<lparr>remoteSocket := closed (remoteSocket s), ws := closed (ws s)\<rparr>"
  "step cfg s Connected = (if remoteSocket s = Null then s else onConnected s)"
  "step cfg s SocketError =
     (if remoteSocket s = Null then s
      else (pipeClose ^^ pipes s)
             (s\<lparr>ws := closedWith (ws s), remoteSocket := closed (remoteSocket s),
                trace := trace s @ [WsClose 1011 ''Remote connection failed'']\<rparr>))"
  "step cfg s SocketTimeout =
     (if remoteSocket s = Null then s
      else s\<lparr>remoteSocket := closed (remoteSocket s), ws := closed (ws s)\<rparr>)"
  "step cfg s (SocketData c) = (pipeData c ^^ pipes s) s"
  "step cfg s SocketEnd = (pipeClose ^^ pipes s) s"
  "step cfg s (ReadyStateChange n) = (case ws s of WebSocket m \<Rightarrow> s\<lparr>ws := WebSocket n\<rparr> | _ \<Rightarrow> s)"
  "step cfg s SocketDestroyed =
     (case remoteSocket s of Socket d \<Rightarrow> s\<lparr>remoteSocket := Socket True\<rparr> | _ \<Rightarrow> s)"
  by (simp_all add: step_def)

lemma quiet_refl: "quiet s s"
  by (simp add: quiet_def)

lemma quiet_trans: "quiet s t \<Longrightarrow> quiet t u \<Longrightarrow> quiet s u"
  by (auto simp: quiet_def)

lemma quiet_pipeData: "quiet s (pipeData c s)"
  by (simp add: quiet_def pipeData_def)

lemma quiet_pipeClose: "quiet s (pipeClose s)"
  by (simp add: quiet_def pipeClose_def)

lemma quiet_funpow:
  assumes "\<And>t. quiet t (f t)"
  shows "quiet s ((f ^^ n) s)"
proof (induction n)
  case 0
  show ?case by (simp add: quiet_refl)
next
  case (Suc n)
  have "quiet ((f ^^ n) s) (f ((f ^^ n) s))" by (rule assms)
  with Suc show ?case by (simp add: quiet_trans)
qed

lemma quiet_ws: "quiet s (s\<lparr>ws := c\<rparr>)"
  by (simp add: quiet_def)

lemma closed_Null_iff [simp]: "(closed c = Null) = (c = Null)"
  by (cases c) (simp_all add: closed_def safeClose_def tryCatch_def closeCall_def destroyCall_def)

lemma quiet_socket: "(c = Null) = (remoteSocket s = Null) \<Longrightarrow> quiet s (s\<lparr>remoteSocket := c\<rparr>)"
  by (simp add: quiet_def)

lemma step_quiet:
  assumes "\<not> isMessage e" and "e \<noteq> Connected"
  shows "quiet s (step cfg s e)"
proof (cases e)
  case (Message d)
  with assms show ?thesis by simp
next
  case WsClosed
  then show ?thesis by (simp add: step_simps quiet_def)
next
  case WsError
  then show ?thesis by (simp add: step_simps quiet_def)
next
  case Connected
  with assms show ?thesis by simp
next
  case SocketError
  let ?t = "s\<lparr>ws := closedWith (ws s), remoteSocket := closed (remoteSocket s),
                trace := trace s @ [WsClose 1011 ''Remote connection failed'']\<rparr>"
  have "quiet s ?t" by (simp add: quiet_def)
  moreover have "quiet ?t ((pipeClose ^^ pipes s) ?t)"
    by (rule quiet_funpow) (rule quiet_pipeClose)
  ultimately have "quiet s ((pipeClose ^^ pipes s) ?t)" by (rule quiet_trans)
  with SocketError show ?thesis by (simp add: step_simps quiet_refl)
next
  case SocketTimeout
  then show ?thesis by (simp add: step_simps quiet_def)
next
  case (SocketData c)
  have "quiet s ((pipeData c ^^ pipes s) s)"
    by (rule quiet_funpow) (rule quiet_pipeData)
  with SocketData show ?thesis by (simp add: step_simps)
next
  case SocketEnd
  have "quiet s ((pipeClose ^^ pipes s) s)"
    by (rule quiet_funpow) (rule quiet_pipeClose)
  with SocketEnd show ?thesis by (simp add: step_simps)
next
  case (ReadyStateChange n)
  then show ?thesis by (simp add: step_simps quiet_def split: connection.splits)
next
  case SocketDestroyed
  then show ?thesis by (simp add: step_simps quiet_def split: connection.splits)
qed

lemma rejected_quiet: "rejected s \<Longrightarrow> quiet s s' \<Longrightarrow> rejected s'"
  by (auto simp: rejected_def quiet_def)


lemma awaiting_initial: "awaiting initial"
  by (simp add: awaiting_def initial_def)

lemma awaiting_step:
  assumes "awaiting s" and "\<not> isMessage e"
  shows "awaiting (step cfg s e)"
  using assms
  by (cases e) (simp_all add: step_simps awaiting_def split: connection.splits)

lemma awaiting_steps:
  assumes "awaiting s" and "\<forall>e \<in> set es. \<not> isMessage e"
  shows "awaiting (foldl (step cfg) s es)"
  using assms by (induction es arbitrary: s) (simp_all add: awaiting_step)

lemma rejected_message: "rejected s \<Longrightarrow> rejected (onMessage cfg s d)"
  by (simp add: rejected_def onMessage_def Let_def)

lemma rejected_step:
  assumes "rejected s"
  shows "rejected (step cfg s e)"
proof (cases "isMessage e \<or> e = Connected")
  case True
  then show ?thesis
  proof (cases e)
    case (Message d)
    with assms show ?thesis by (simp add: step_simps rejected_message)
  next
    case Connected
    with assms show ?thesis by (simp add: step_simps rejected_def)
  qed simp_all
next
  case False
  with assms show ?thesis using step_quiet rejected_quiet by blast
qed

lemma rejected_steps:
  assumes "rejected s"
  shows "rejected (foldl (step cfg) s es)"
  using assms by (induction es arbitrary: s) (simp_all add: rejected_step)

lemma trace_quiet: "quiet s s' \<Longrightarrow> \<exists>more. trace s' = trace s @ more"
  by (simp add: quiet_def)

lemma trace_message: "\<exists>more. trace (onMessage cfg s d) = trace s @ more"
  by (simp add: onMessage_def Let_def split: sum.splits result.splits)

lemma trace_connected: "\<exists>more. trace (onConnected s) = trace s @ more"
  by (simp add: onConnected_def Let_def)

lemma trace_step_prefix: "\<exists>more. trace (step cfg s e) = trace s @ more"
proof (cases "isMessage e \<or> e = Connected")
  case True
  then show ?thesis
  proof (cases e)
    case (Message d)
    then show ?thesis by (simp add: step_simps trace_message)
  next
    case Connected
    then show ?thesis by (simp add: step_simps trace_connected)
  qed simp_all
next
  case False
  then show ?thesis using step_quiet trace_quiet by blast
qed

lemma trace_steps_prefix: "\<exists>more. trace (foldl (step cfg) s es) = trace s @ more"
proof (induction es arbitrary: s)
  case Nil
  show ?case by simp
next
  case (Cons e es)
  obtain m1 where m1: "trace (step cfg s e) = trace s @ m1"
    using trace_step_prefix by blast
  obtain m2 where "trace (foldl (step cfg) (step cfg s e) es) = trace (step cfg s e) @ m2"
    using Cons.IH by blast
  with m1 show ?case by simp
qed

lemma first_message_rejected:
  assumes "awaiting s" and "processVlessHeader m (UUID cfg) = Inr (Failure msg)"
  shows "rejected (step cfg s (Message m))" and "trace (step cfg s (Message m)) = [WsClose 1008 msg]"
    and "ws (step cfg s (Message m)) = closedWith (ws s)"
  using assms by (simp_all add: awaiting_def rejected_def step_simps onMessage_def)

lemma no_connect_after_rejection:
  assumes "\<forall>e \<in> set pre. \<not> isMessage e"
    and "processVlessHeader m (UUID cfg) = Inr (Failure msg)"
  shows "connects (trace (run cfg (pre @ Message m # post))) = []"
    and "\<exists>more. trace (run cfg (pre @ Message m # post)) = WsClose 1008 msg # more"
proof -
  let ?s = "foldl (step cfg) initial pre"
  have aw: "awaiting ?s" using awaiting_initial assms(1) by (rule awaiting_steps)
  note fm = first_message_rejected [OF aw assms(2)]
  have run: "run cfg (pre @ Message m # post) = foldl (step cfg) (step cfg ?s (Message m)) post"
    by (simp add: run_def)
  from rejected_steps [OF fm(1)] show "connects (trace (run cfg (pre @ Message m # post))) = []"
    by (simp add: run rejected_def)
  from trace_steps_prefix [of cfg "step cfg ?s (Message m)" post] fm(2)
  show "\<exists>more. trace (run cfg (pre @ Message m # post)) = WsClose 1008 msg # more"
    by (auto simp: run)
qed








lemma early_message_dropped:
  assumes "\<not> isFirstMessage s" and "\<not> isHeaderProcessed s"
  shows "step cfg s (Message d) =
           s\<lparr>trace := trace s @
               [ConsoleWarn (''['' @ addressRemote s @ '':'' @ toString10 (portRemote s)
                             @ ''] Received data before connection ready'')]\<rparr>"
  using assms by (simp add: step_simps onMessage_def)



section \<open>A rejected first message\<close>

text \<open>
  In a session of websocket-proxy.js, \<open>no_connect_after_rejection\<close> shows that a rejected
  first message closes the WebSocket with status 1008 and that no execution calls
  \<^verbatim>\<open>net.connect\<close> afterwards: \<^verbatim>\<open>isFirstMessage\<close> is false from then on. The listener of
  websocket-handler.js has no such flag. It takes a message for the first one as long as
  \<^verbatim>\<open>remoteSocket\<close> is \<^verbatim>\<open>null\<close>, which a rejected message leaves it.
\<close>



end
